theory Spec2Isabelle
  imports Complex_Main
begin

section \<open>The chat gateway of \<^verbatim>\<open>serving/chat_api.py\<close>\<close>

text \<open>
  The file embeds the context-assembly and generation-orchestration pipeline of
  \<^verbatim>\<open>src/serving/chat_api.py\<close>: the label of a hit, the citation extractor, the hit
  normaliser, the answer post-processing and the two routes \<^verbatim>\<open>/dryrun\<close> and \<^verbatim>\<open>/chat\<close>
  with their telemetry.

  Conventions of the embedding.
  \<^item> A Python \<^verbatim>\<open>str\<close> is a \<^typ>\<open>string\<close>; one \<^typ>\<open>char\<close> stands for one code point, so
    the strings covered are those whose code points lie below 256. On these,
    \<^verbatim>\<open>str.lower\<close>, \<^verbatim>\<open>str.strip\<close>, \<^verbatim>\<open>str.rstrip\<close> and \<^verbatim>\<open>str.splitlines\<close> are written out as
    CPython computes them.
  \<^item> A hit is a JSON object read with \<^verbatim>\<open>.get\<close>; the fields the code reads (\<^verbatim>\<open>text\<close>,
    \<^verbatim>\<open>meta\<close>, and \<^verbatim>\<open>doc_id\<close>, \<^verbatim>\<open>section\<close>, \<^verbatim>\<open>text\<close> of \<^verbatim>\<open>meta\<close>) are strings, or are
    \<^verbatim>\<open>null\<close> or missing (both are \<^const>\<open>None\<close>, as \<^verbatim>\<open>.get\<close> makes them).
  \<^item> \<^verbatim>\<open>MAX_CTX_SNIPPETS\<close>, \<^verbatim>\<open>MAX_CTX_CHARS\<close> and \<^verbatim>\<open>MODEL_NAME\<close> are read from the
    environment when the module is loaded; they are the fields of a configuration record.
\<close>

subsection \<open>Strings\<close>

definition NL :: char where
  "NL = CHR 0x0A"

definition CR :: char where
  "CR = CHR 0x0D"

text \<open>\<^verbatim>\<open>str.isspace\<close> on one code point below 256.\<close>

definition is_space :: "char \<Rightarrow> bool" where
  "is_space c = (let n = (of_char c :: nat) in
     (0x09 \<le> n \<and> n \<le> 0x0D) \<or> (0x1C \<le> n \<and> n \<le> 0x20) \<or> n = 0x85 \<or> n = 0xA0)"

text \<open>The line boundaries of \<^verbatim>\<open>str.splitlines\<close> below 256.\<close>

definition is_linebreak :: "char \<Rightarrow> bool" where
  "is_linebreak c = (let n = (of_char c :: nat) in
     (0x0A \<le> n \<and> n \<le> 0x0D) \<or> (0x1C \<le> n \<and> n \<le> 0x1E) \<or> n = 0x85)"

definition lower_char :: "char \<Rightarrow> char" where
  "lower_char c = (let n = (of_char c :: nat) in
     if (0x41 \<le> n \<and> n \<le> 0x5A) \<or> (0xC0 \<le> n \<and> n \<le> 0xDE \<and> n \<noteq> 0xD7)
     then char_of (n + 32) else c)"

definition lower :: "string \<Rightarrow> string" where
  "lower s = map lower_char s"

definition lstrip :: "string \<Rightarrow> string" where
  "lstrip s = dropWhile is_space s"

definition rstrip :: "string \<Rightarrow> string" where
  "rstrip s = rev (dropWhile is_space (rev s))"

definition strip :: "string \<Rightarrow> string" where
  "strip s = rstrip (lstrip s)"

definition startswith :: "string \<Rightarrow> string \<Rightarrow> bool" where
  "startswith s p = (take (length p) s = p)"

text \<open>\<^verbatim>\<open>sep.join(parts)\<close>.\<close>

fun join :: "string \<Rightarrow> string list \<Rightarrow> string" where
  "join sep [] = []"
| "join sep [x] = x"
| "join sep (x # y # ys) = x @ sep @ join sep (y # ys)"

text \<open>
  \<^verbatim>\<open>str.splitlines()\<close>: the text up to the next line boundary is one line, the boundary
  (\<^verbatim>\<open>\r\n\<close> counting as one) is dropped, and nothing is produced once the input is used up.
\<close>

definition after_break :: "string \<Rightarrow> string" where
  "after_break r = (case r of
       [] \<Rightarrow> []
     | c # cs \<Rightarrow> (if c = CR then (case cs of [] \<Rightarrow> [] | d # ds \<Rightarrow> if d = NL then ds else cs)
                 else cs))"

function splitlines :: "string \<Rightarrow> string list" where
  "splitlines s =
     (if s = [] then []
      else takeWhile (\<lambda>c. \<not> is_linebreak c) s
           # splitlines (after_break (dropWhile (\<lambda>c. \<not> is_linebreak c) s)))"
  by pat_completeness auto

termination splitlines
proof (relation "measure length")
  show "wf (measure length)" by simp
next
  fix s :: string
  assume ne: "s \<noteq> []"
  let ?r = "dropWhile (\<lambda>c. \<not> is_linebreak c) s"
  show "(after_break ?r, s) \<in> measure length"
  proof (cases "?r = []")
    case True
    show ?thesis unfolding True using ne by (simp add: after_break_def)
  next
    case False
    then have "length (after_break ?r) < length ?r"
      by (auto simp: after_break_def split: list.splits)
    moreover have "length ?r \<le> length s" by (rule length_dropWhile_le)
    ultimately show ?thesis by simp
  qed
qed

declare splitlines.simps [simp del]

subsection \<open>Hits, labels and citations\<close>

record meta =
  m_doc_id :: "string option"
  m_section :: "string option"
  m_text :: "string option"

record hit =
  h_text :: "string option"
  h_meta :: "meta option"

text \<open>\<^verbatim>\<open>(meta or {}).get(key)\<close>\<close>

definition meta_get :: "meta option \<Rightarrow> (meta \<Rightarrow> string option) \<Rightarrow> string option" where
  "meta_get m field = (case m of None \<Rightarrow> None | Some mm \<Rightarrow> field mm)"

text \<open>\<^verbatim>\<open>_label\<close>: \<^verbatim>\<open>not did\<close> holds for a missing and for an empty \<^verbatim>\<open>doc_id\<close>, and
  \<^verbatim>\<open>sec and sec != "full"\<close> fails for a missing and for an empty section.\<close>

definition label :: "meta option \<Rightarrow> string" where
  "label m = (let did = meta_get m m_doc_id; sec = meta_get m m_section in
     case did of
       None \<Rightarrow> ''unknown''
     | Some d \<Rightarrow>
         if d = [] then ''unknown''
         else (case sec of
                 None \<Rightarrow> d
               | Some s \<Rightarrow> if s \<noteq> [] \<and> s \<noteq> ''full'' then d @ ''#'' @ s else d))"

text \<open>\<^verbatim>\<open>_collect_citations\<close>: the loop over the hits, with its two variables \<^verbatim>\<open>seen\<close> and
  \<^verbatim>\<open>out\<close>.\<close>

fun collect_loop :: "hit list \<Rightarrow> string set \<Rightarrow> string list \<Rightarrow> string list" where
  "collect_loop [] seen out = out"
| "collect_loop (h # hs) seen out =
     (let lab = label (h_meta h) in
      if lab \<notin> seen then collect_loop hs (insert lab seen) (out @ [lab])
      else collect_loop hs seen out)"

definition collect_citations :: "hit list \<Rightarrow> string list" where
  "collect_citations hits = collect_loop hits {} []"

subsection \<open>The hit normaliser\<close>

record config =
  model_name :: string
  max_ctx_snippets :: int
  max_ctx_chars :: int

text \<open>The defaults of the three environment variables.\<close>

definition default_config :: config where
  "default_config =
     \<lparr>model_name = ''smollm2-135m-atharva'', max_ctx_snippets = 3, max_ctx_chars = 2400\<rparr>"

text \<open>\<^verbatim>\<open>x or ""\<close> on an optional string.\<close>

definition or_empty :: "string option \<Rightarrow> string" where
  "or_empty x = (case x of None \<Rightarrow> [] | Some s \<Rightarrow> s)"

text \<open>The first loop of \<^verbatim>\<open>_normalize_hits\<close>: hits of the query log are dropped.\<close>

definition is_noise :: "hit \<Rightarrow> bool" where
  "is_noise h =
     startswith (lower (or_empty (meta_get (h_meta h) m_doc_id))) ''recent_queries.jsonl''"

definition drop_noise :: "hit list \<Rightarrow> hit list" where
  "drop_noise hits = filter (\<lambda>h. \<not> is_noise h) hits"

text \<open>\<^verbatim>\<open>filt.sort(key=lambda h: (h.get("text") is None))\<close>: a stable sort on a Boolean key,
  \<^verbatim>\<open>False\<close> before \<^verbatim>\<open>True\<close>.\<close>

definition text_first :: "hit list \<Rightarrow> hit list" where
  "text_first filt = sort_key (\<lambda>h. h_text h = None) filt"

text \<open>The second loop: the first hit of each label is kept.\<close>

fun dedup_loop :: "hit list \<Rightarrow> string set \<Rightarrow> hit list \<Rightarrow> hit list" where
  "dedup_loop [] seen dedup = dedup"
| "dedup_loop (h # hs) seen dedup =
     (let lab = label (h_meta h) in
      if lab \<in> seen then dedup_loop hs seen dedup
      else dedup_loop hs (insert lab seen) (dedup @ [h]))"

text \<open>\<^verbatim>\<open>h.get("text") or (h.get("meta") or {}).get("text") or ""\<close>: an empty string is
  false, so an empty inline text gives way to the text of \<^verbatim>\<open>meta\<close>.\<close>

definition hit_txt :: "hit \<Rightarrow> string" where
  "hit_txt h =
     (case h_text h of
        Some t \<Rightarrow> if t \<noteq> [] then t else or_empty (meta_get (h_meta h) m_text)
      | None \<Rightarrow> or_empty (meta_get (h_meta h) m_text))"

text \<open>The third loop, with its variables \<^verbatim>\<open>total\<close> (here \<open>tot\<close>) and \<^verbatim>\<open>trimmed\<close>; the \<^verbatim>\<open>break\<close> is
  tested after the hit has been handled.\<close>

fun trim_loop :: "config \<Rightarrow> hit list \<Rightarrow> int \<Rightarrow> hit list \<Rightarrow> hit list" where
  "trim_loop cfg [] tot trimmed = trimmed"
| "trim_loop cfg (h # hs) tot trimmed =
     (let txt = hit_txt h;
          admit = (int (length trimmed) < max_ctx_snippets cfg
                   \<and> tot + int (length txt) \<le> max_ctx_chars cfg);
          trimmed' = (if admit then trimmed @ [h] else trimmed);
          tot' = (if admit then tot + int (length txt) else tot)
      in if int (length trimmed') \<ge> max_ctx_snippets cfg then trimmed'
         else trim_loop cfg hs tot' trimmed')"

definition normalize_hits :: "config \<Rightarrow> hit list \<Rightarrow> hit list" where
  "normalize_hits cfg hits =
     (let filt = text_first (drop_noise hits);
          dedup = dedup_loop filt {} []
      in trim_loop cfg dedup 0 [])"

subsection \<open>Answer post-processing\<close>

text \<open>\<^verbatim>\<open>_strip_existing_source\<close>\<close>

definition is_source_line :: "string \<Rightarrow> bool" where
  "is_source_line line = startswith (lower (strip line)) ''source:''"

definition strip_existing_source :: "string \<Rightarrow> string" where
  "strip_existing_source txt =
     (let lines = splitlines (rstrip txt);
          kept = filter (\<lambda>line. \<not> is_source_line line) lines
      in rstrip (join [NL] kept))"

text \<open>The footer appended by \<^verbatim>\<open>chat\<close>:
  \<^verbatim>\<open>"\nSource: " + "; ".join(citations) if citations else "\nSource: (none)"\<close>.\<close>

definition source_footer :: "string list \<Rightarrow> string" where
  "source_footer citations =
     (if citations \<noteq> [] then NL # ''Source: '' @ join ''; '' citations
      else NL # ''Source: (none)'')"

text \<open>The two statements of \<^verbatim>\<open>chat\<close> that turn the content of the completion into the
  answer; the specification calls them \<^verbatim>\<open>finalize\<close>.\<close>

definition finalize :: "string \<Rightarrow> string list \<Rightarrow> string" where
  "finalize content citations = strip_existing_source content @ source_footer citations"

subsection \<open>Floats, JSON values and exceptions\<close>

text \<open>A Python \<^verbatim>\<open>float\<close>: a finite value, an infinity or a NaN. The code only compares
  floats, and \<open>float_lt\<close> is the comparison \<^verbatim>\<open><\<close> of IEEE 754.\<close>

datatype pyfloat = Finite real | PosInf | NegInf | NaN

fun float_lt :: "pyfloat \<Rightarrow> pyfloat \<Rightarrow> bool" where
  "float_lt (Finite a) (Finite b) = (a < b)"
| "float_lt NaN _ = False"
| "float_lt _ NaN = False"
| "float_lt PosInf _ = False"
| "float_lt _ PosInf = True"
| "float_lt _ NegInf = False"
| "float_lt NegInf _ = True"

text \<open>The builtins \<^verbatim>\<open>min(a, b)\<close> and \<^verbatim>\<open>max(a, b)\<close>: the first argument is kept unless the
  second is strictly smaller (strictly greater).\<close>

definition py_min :: "pyfloat \<Rightarrow> pyfloat \<Rightarrow> pyfloat" where
  "py_min a b = (if float_lt b a then b else a)"

definition py_max :: "pyfloat \<Rightarrow> pyfloat \<Rightarrow> pyfloat" where
  "py_max a b = (if float_lt a b then b else a)"

definition py_min_int :: "int \<Rightarrow> int \<Rightarrow> int" where
  "py_min_int a b = (if b < a then b else a)"

datatype json =
    JNull
  | JBool bool
  | JInt int
  | JFloat pyfloat
  | JStr string
  | JArr "json list"
  | JObj "(string \<times> json) list"

text \<open>The exceptions that can leave the two routes. \<open>TransportError\<close>, \<open>StatusError\<close> and
  \<open>DecodeError\<close> stand for what \<^verbatim>\<open>cx.post\<close>, \<^verbatim>\<open>raise_for_status\<close> and \<^verbatim>\<open>.json()\<close> raise.\<close>

datatype exn =
    TransportError
  | StatusError
  | DecodeError
  | KeyError
  | IndexError
  | TypeError
  | AttributeError

text \<open>\<^verbatim>\<open>v[key]\<close> with a string key, and \<^verbatim>\<open>v[0]\<close>. The keys of a decoded JSON object are
  strings, so \<^verbatim>\<open>d[0]\<close> on a dict is a \<^verbatim>\<open>KeyError\<close>.\<close>

fun subscr_key :: "json \<Rightarrow> string \<Rightarrow> exn + json" where
  "subscr_key (JObj kvs) key = (case map_of kvs key of None \<Rightarrow> Inl KeyError | Some v \<Rightarrow> Inr v)"
| "subscr_key _ key = Inl TypeError"

fun subscr_zero :: "json \<Rightarrow> exn + json" where
  "subscr_zero (JArr []) = Inl IndexError"
| "subscr_zero (JArr (x # xs)) = Inr x"
| "subscr_zero (JStr []) = Inl IndexError"
| "subscr_zero (JStr (c # cs)) = Inr (JStr [c])"
| "subscr_zero (JObj kvs) = Inl KeyError"
| "subscr_zero _ = Inl TypeError"

text \<open>\<^verbatim>\<open>data["choices"][0]["message"]["content"]\<close>\<close>

definition extract_content :: "json \<Rightarrow> exn + json" where
  "extract_content data =
     (case subscr_key data ''choices'' of
        Inl e \<Rightarrow> Inl e
      | Inr choices \<Rightarrow>
          (case subscr_zero choices of
             Inl e \<Rightarrow> Inl e
           | Inr choice \<Rightarrow>
               (case subscr_key choice ''message'' of
                  Inl e \<Rightarrow> Inl e
                | Inr msg \<Rightarrow> subscr_key msg ''content'')))"

text \<open>\<^verbatim>\<open>data.get("usage", {})\<close>, on a \<^verbatim>\<open>data\<close> that is a dict.\<close>

definition get_usage :: "json \<Rightarrow> json" where
  "get_usage data =
     (case data of
        JObj kvs \<Rightarrow> (case map_of kvs ''usage'' of None \<Rightarrow> JObj [] | Some u \<Rightarrow> u)
      | _ \<Rightarrow> JObj [])"

subsection \<open>The two routes\<close>

record message =
  role :: string
  content :: string

record chat_request =
  question :: string
  k :: int
  max_tokens :: int
  temperature :: pyfloat
  debug :: bool

record payload =
  p_model :: string
  p_messages :: "message list"
  p_temperature :: pyfloat
  p_top_p :: real
  p_max_tokens :: int
  p_stream :: bool

text \<open>
  What lies outside the module. \<open>retriever q k\<close> is the outcome of the guarded block
  around \<^verbatim>\<open>POST /search\<close> with \<^verbatim>\<open>{"query": q, "k": k}\<close>: the exception raised in it, or the
  value of \<^verbatim>\<open>r.json().get("hits", [])\<close>. \<open>vllm p\<close> is the outcome of the guarded block around
  \<^verbatim>\<open>POST /v1/chat/completions\<close> with payload \<open>p\<close>: the exception raised in it, or the decoded
  body \<^verbatim>\<open>rr.json()\<close>. \<open>build_messages\<close> is the function imported from
  \<^verbatim>\<open>prompt_templates\<close>, which is not part of the file.
\<close>

record world =
  retriever :: "string \<Rightarrow> int \<Rightarrow> exn + hit list"
  vllm :: "payload \<Rightarrow> exn + json"
  build_messages :: "string \<Rightarrow> hit list \<Rightarrow> message list"

text \<open>
  The Prometheus registry: the two labelled counters, and of each histogram the number
  of observations (the observed durations depend on the clock and are left out, and so
  is \<^verbatim>\<open>latency_seconds\<close> of the response). The three token gauges are set inside a
  \<^verbatim>\<open>try\<close> whose handler swallows every exception; they change nothing else and are left
  out as well.
\<close>

record metrics =
  reqs_chat :: nat
  reqs_dryrun :: nat
  errs_retriever :: nat
  errs_vllm :: nat
  rag_lat_count :: nat
  vllm_lat_count :: nat
  e2e_lat_count :: nat

definition zero_metrics :: metrics where
  "zero_metrics = \<lparr>reqs_chat = 0, reqs_dryrun = 0, errs_retriever = 0, errs_vllm = 0,
     rag_lat_count = 0, vllm_lat_count = 0, e2e_lat_count = 0\<rparr>"

record snippet =
  s_label :: string
  s_text :: string

definition used_snippets_of :: "hit list \<Rightarrow> snippet list" where
  "used_snippets_of ctx_hits =
     map (\<lambda>h. \<lparr>s_label = label (h_meta h), s_text = hit_txt h\<rparr>) ctx_hits"

record dryrun_response =
  dr_question :: string
  dr_citations :: "string list"
  dr_used_snippets :: "snippet list"
  dr_messages :: "message list"
  dr_note :: string

record debug_payload =
  dbg_messages :: "message list"
  dbg_used_snippets :: "snippet list"
  dbg_raw_hits :: "hit list"
  dbg_payload_model :: string
  dbg_payload_temperature :: pyfloat
  dbg_payload_max_tokens :: int

record chat_response =
  r_answer :: string
  r_citations :: "string list"
  r_usage :: json
  r_debug :: "debug_payload option"

text \<open>The retrieval stage shared by both routes: the error counter in the handler, the
  latency in the \<^verbatim>\<open>finally\<close> block.\<close>

definition retrieve :: "world \<Rightarrow> string \<Rightarrow> int \<Rightarrow> metrics \<Rightarrow> (exn + hit list) \<times> metrics" where
  "retrieve W q kk m =
     (case retriever W q kk of
        Inl e \<Rightarrow> (Inl e, m\<lparr>errs_retriever := errs_retriever m + 1,
                            rag_lat_count := rag_lat_count m + 1\<rparr>)
      | Inr raw_hits \<Rightarrow> (Inr raw_hits, m\<lparr>rag_lat_count := rag_lat_count m + 1\<rparr>))"

definition dryrun ::
  "config \<Rightarrow> world \<Rightarrow> string \<Rightarrow> int \<Rightarrow> metrics \<Rightarrow> (exn + dryrun_response) \<times> metrics" where
  "dryrun cfg W q kk m0 =
     (let m1 = m0\<lparr>reqs_dryrun := reqs_dryrun m0 + 1\<rparr> in
      case retrieve W q kk m1 of
        (Inl e, m2) \<Rightarrow> (Inl e, m2)
      | (Inr raw_hits, m2) \<Rightarrow>
          (let ctx_hits = normalize_hits cfg raw_hits;
               citations = collect_citations ctx_hits;
               messages = build_messages W q ctx_hits
           in (Inr \<lparr>dr_question = q, dr_citations = citations,
                     dr_used_snippets = used_snippets_of ctx_hits,
                     dr_messages = messages,
                     dr_note = ''This is a dry run; no LLM call was made.''\<rparr>, m2)))"

text \<open>Step 4 of \<^verbatim>\<open>chat\<close>: the clamped sampling parameters and the payload.\<close>

definition clamp_temperature :: "pyfloat \<Rightarrow> pyfloat" where
  "clamp_temperature t = py_max (Finite 0) (py_min t (Finite (1 / 2)))"

definition clamp_max_tokens :: "int \<Rightarrow> int" where
  "clamp_max_tokens n = py_min_int n 256"

definition gen_payload :: "config \<Rightarrow> chat_request \<Rightarrow> message list \<Rightarrow> payload" where
  "gen_payload cfg req messages =
     \<lparr>p_model = model_name cfg, p_messages = messages,
      p_temperature = clamp_temperature (temperature req),
      p_top_p = 9 / 10,
      p_max_tokens = clamp_max_tokens (max_tokens req),
      p_stream = False\<rparr>"

text \<open>The generation stage: the guarded call, its error counter and its latency.\<close>

definition generate :: "world \<Rightarrow> payload \<Rightarrow> metrics \<Rightarrow> (exn + json) \<times> metrics" where
  "generate W p m =
     (case vllm W p of
        Inl e \<Rightarrow> (Inl e, m\<lparr>errs_vllm := errs_vllm m + 1,
                            vllm_lat_count := vllm_lat_count m + 1\<rparr>)
      | Inr data \<Rightarrow> (Inr data, m\<lparr>vllm_lat_count := vllm_lat_count m + 1\<rparr>))"

text \<open>What follows the generation stage, outside every handler: the content is read
  from the body (a lookup that fails raises), \<^verbatim>\<open>_strip_existing_source\<close> calls
  \<^verbatim>\<open>.rstrip()\<close> on it (a content that is not a string raises \<^verbatim>\<open>AttributeError\<close>), and the
  end-to-end latency is observed last.\<close>

definition finish_chat ::
  "config \<Rightarrow> chat_request \<Rightarrow> hit list \<Rightarrow> hit list \<Rightarrow> string list \<Rightarrow> message list \<Rightarrow> payload
     \<Rightarrow> json \<Rightarrow> metrics \<Rightarrow> (exn + chat_response) \<times> metrics" where
  "finish_chat cfg req raw_hits ctx_hits citations messages p data m =
     (case extract_content data of
        Inl e \<Rightarrow> (Inl e, m)
      | Inr c \<Rightarrow>
          (case c of
             JStr content0 \<Rightarrow>
               (let usage = get_usage data;
                    answer = finalize content0 citations;
                    m' = m\<lparr>e2e_lat_count := e2e_lat_count m + 1\<rparr>;
                    dbg = (if debug req
                           then Some \<lparr>dbg_messages = messages,
                                      dbg_used_snippets = used_snippets_of ctx_hits,
                                      dbg_raw_hits = take 10 raw_hits,
                                      dbg_payload_model = model_name cfg,
                                      dbg_payload_temperature = p_temperature p,
                                      dbg_payload_max_tokens = p_max_tokens p\<rparr>
                           else None)
                in (Inr \<lparr>r_answer = answer, r_citations = citations, r_usage = usage,
                          r_debug = dbg\<rparr>, m'))
           | _ \<Rightarrow> (Inl AttributeError, m)))"

definition chat ::
  "config \<Rightarrow> world \<Rightarrow> chat_request \<Rightarrow> metrics \<Rightarrow> (exn + chat_response) \<times> metrics" where
  "chat cfg W req m0 =
     (let m1 = m0\<lparr>reqs_chat := reqs_chat m0 + 1\<rparr> in
      case retrieve W (question req) (k req) m1 of
        (Inl e, m2) \<Rightarrow> (Inl e, m2)
      | (Inr raw_hits, m2) \<Rightarrow>
          (let ctx_hits = normalize_hits cfg raw_hits;
               citations = collect_citations ctx_hits;
               messages = build_messages W (question req) ctx_hits;
               p = gen_payload cfg req messages
           in case generate W p m2 of
                (Inl e, m3) \<Rightarrow> (Inl e, m3)
              | (Inr data, m3) \<Rightarrow>
                  finish_chat cfg req raw_hits ctx_hits citations messages p data m3))"

subsection \<open>Definitions used to state the properties\<close>

text \<open>A float that is finite and lies between two bounds.\<close>

fun float_within :: "real \<Rightarrow> real \<Rightarrow> pyfloat \<Rightarrow> bool" where
  "float_within lo hi (Finite r) = (lo \<le> r \<and> r \<le> hi)"
| "float_within lo hi _ = False"

definition payload_clamped :: "payload \<Rightarrow> bool" where
  "payload_clamped p = (float_within 0 (1 / 2) (p_temperature p) \<and> p_max_tokens p \<le> 256)"

text \<open>
  The budget trim in the words of the specification: the hits are walked in order with
  the number of hits admitted so far and the running total of their text lengths. The
  walk stops once \<^verbatim>\<open>MAX_CTX_SNIPPETS\<close> hits have been admitted; before that, a hit is
  admitted when its text keeps the total within \<^verbatim>\<open>MAX_CTX_CHARS\<close>, and is skipped
  otherwise, the count unchanged and the walk going on.
\<close>

fun spec_budget_trim :: "config \<Rightarrow> hit list \<Rightarrow> nat \<Rightarrow> int \<Rightarrow> hit list" where
  "spec_budget_trim cfg [] admitted tot = []"
| "spec_budget_trim cfg (h # hs) admitted tot =
     (if int admitted \<ge> max_ctx_snippets cfg then []
      else if tot + int (length (hit_txt h)) \<le> max_ctx_chars cfg
           then h # spec_budget_trim cfg hs (Suc admitted) (tot + int (length (hit_txt h)))
           else spec_budget_trim cfg hs admitted tot)"

text \<open>The labels of an evidence sequence, and the elements of a list at the positions
  where an element occurs for the first time, in the order of these positions.\<close>

definition labels_of :: "hit list \<Rightarrow> string list" where
  "labels_of ev = map (\<lambda>h. label (h_meta h)) ev"

definition first_occurrences :: "'a list \<Rightarrow> 'a list" where
  "first_occurrences ls =
     map (\<lambda>i. ls ! i) (filter (\<lambda>i. ls ! i \<notin> set (take i ls)) [0..<length ls])"

text \<open>A string without a line boundary of \<^verbatim>\<open>str.splitlines\<close>.\<close>

definition break_free :: "string \<Rightarrow> bool" where
  "break_free s = list_all (\<lambda>c. \<not> is_linebreak c) s"

text \<open>Concrete surroundings for the examples: a retrieval service that returns one hit,
  a backend that answers \<^verbatim>\<open>"ok"\<close> in the expected shape, and variants where the retrieval
  service fails, where the backend fails, and where the backend returns the empty object.\<close>

definition hits_ok :: "hit list" where
  "hits_ok = [\<lparr>h_text = Some ''hello'',
               h_meta = Some \<lparr>m_doc_id = Some ''A'', m_section = Some ''intro'', m_text = None\<rparr>\<rparr>]"

definition body_ok :: json where
  "body_ok = JObj [(''choices'', JArr [JObj [(''message'', JObj [(''content'', JStr ''ok'')])]])]"

definition world_ok :: world where
  "world_ok = \<lparr>retriever = (\<lambda>q kk. Inr hits_ok), vllm = (\<lambda>p. Inr body_ok),
     build_messages = (\<lambda>q hs. \<lparr>role = ''user'', content = q\<rparr>
                                # map (\<lambda>h. \<lparr>role = ''system'', content = hit_txt h\<rparr>) hs)\<rparr>"


definition world_vllm_down :: world where
  "world_vllm_down = world_ok\<lparr>vllm := (\<lambda>p. Inl TransportError)\<rparr>"

definition world_bad_shape :: world where
  "world_bad_shape = world_ok\<lparr>vllm := (\<lambda>p. Inr (JObj []))\<rparr>"

definition request_ok :: chat_request where
  "request_ok = \<lparr>question = ''q'', k = 4, max_tokens = 200, temperature = Finite (1 / 10),
     debug = True\<rparr>"


section \<open>Properties\<close>

subsection \<open>Citation labels\<close>

text \<open>
  C7, as stated, at a hit whose section is the empty string: the section is present and
  differs from \<^verbatim>\<open>"full"\<close>, and the label is the \<^verbatim>\<open>doc_id\<close> alone, not \<^verbatim>\<open>"B#"\<close>.
\<close>

theorem label_empty_section_counterexample:
  "m_section \<lparr>m_doc_id = Some ''B'', m_section = Some '''', m_text = None\<rparr> = Some ''''
   \<and> '''' \<noteq> ''full''
   \<and> label (Some \<lparr>m_doc_id = Some ''B'', m_section = Some '''', m_text = None\<rparr>)
       \<noteq> ''B'' @ ''#'' @ ''''"
  by (simp add: label_def meta_get_def)

text \<open>
  C7, amended: the label is \<^verbatim>\<open>"unknown"\<close> when \<^verbatim>\<open>meta\<close> is missing or the \<^verbatim>\<open>doc_id\<close> is missing
  or empty; otherwise it is the \<^verbatim>\<open>doc_id\<close> alone when the section is missing, empty or
  \<^verbatim>\<open>"full"\<close>, and \<^verbatim>\<open>doc_id#section\<close> when the section is a non-empty string other than
  \<^verbatim>\<open>"full"\<close>. A hit with \<^verbatim>\<open>doc_id\<close> \<^verbatim>\<open>"B"\<close> and section \<^verbatim>\<open>"full"\<close> has the label \<^verbatim>\<open>"B"\<close>.
\<close>

theorem label_cases:
  "label None = ''unknown''
   \<and> (m_doc_id mm = None \<or> m_doc_id mm = Some [] \<longrightarrow> label (Some mm) = ''unknown'')
   \<and> (m_doc_id mm = Some d \<and> d \<noteq> []
        \<and> (m_section mm = None \<or> m_section mm = Some [] \<or> m_section mm = Some ''full'')
      \<longrightarrow> label (Some mm) = d)
   \<and> (m_doc_id mm = Some d \<and> d \<noteq> [] \<and> m_section mm = Some s \<and> s \<noteq> [] \<and> s \<noteq> ''full''
      \<longrightarrow> label (Some mm) = d @ ''#'' @ s)
   \<and> label (Some \<lparr>m_doc_id = Some ''B'', m_section = Some ''full'', m_text = t\<rparr>) = ''B''"
  by (auto simp: label_def meta_get_def)

theorem label_cases_witness:
  "label (Some \<lparr>m_doc_id = None, m_section = Some ''intro'', m_text = None\<rparr>) = ''unknown''
   \<and> label (Some \<lparr>m_doc_id = Some ''B'', m_section = Some ''full'', m_text = None\<rparr>) = ''B''
   \<and> label (Some \<lparr>m_doc_id = Some ''A'', m_section = Some ''intro'', m_text = None\<rparr>)
       = ''A#intro''"
  using
    label_cases [of "\<lparr>m_doc_id = None, m_section = Some ''intro'', m_text = None\<rparr>"
      "''x''" "''y''" None]
    label_cases [of "\<lparr>m_doc_id = Some ''B'', m_section = Some ''full'', m_text = None\<rparr>"
      "''B''" "''y''" None]
    label_cases [of "\<lparr>m_doc_id = Some ''A'', m_section = Some ''intro'', m_text = None\<rparr>"
      "''A''" "''intro''" None]
  by simp

subsection \<open>Clamped sampling parameters\<close>

lemma clamp_temperature_range: "float_within 0 (1 / 2) (clamp_temperature t)"
  by (cases t) (auto simp: clamp_temperature_def py_min_def py_max_def)

lemma clamp_max_tokens_le: "clamp_max_tokens n \<le> 256"
  by (simp add: clamp_max_tokens_def py_min_int_def)

lemma gen_payload_clamped: "payload_clamped (gen_payload cfg req msgs)"
  using clamp_temperature_range [of "temperature req"] clamp_max_tokens_le [of "max_tokens req"]
  by (auto simp: payload_clamped_def gen_payload_def)

lemma chat_guarded_backend:
  "chat cfg (W\<lparr>vllm := \<lambda>p. if payload_clamped p then vllm W p else Inl TransportError\<rparr>) req m
   = chat cfg W req m"
  by (simp add: chat_def retrieve_def generate_def gen_payload_clamped Let_def
      split: sum.splits prod.splits)

text \<open>
  C5: whatever the request holds (a NaN and the infinities included), the temperature of
  the payload is a finite value in [0, 0.5] and its \<^verbatim>\<open>max_tokens\<close> is at most 256; a
  request with temperature 0.9 and \<^verbatim>\<open>max_tokens\<close> 500 gives 0.5 and 256. The payload of
  \<open>gen_payload\<close> is the only one \<open>chat\<close> sends: a backend that rejects every payload
  outside these bounds leaves \<open>chat\<close> as it is.
\<close>

theorem payload_clamp:
  "float_within 0 (1 / 2) (p_temperature (gen_payload cfg req msgs))
   \<and> p_max_tokens (gen_payload cfg req msgs) \<le> 256
   \<and> p_temperature
        (gen_payload cfg (req\<lparr>temperature := Finite (9 / 10), max_tokens := 500\<rparr>) msgs)
       = Finite (1 / 2)
   \<and> p_max_tokens
        (gen_payload cfg (req\<lparr>temperature := Finite (9 / 10), max_tokens := 500\<rparr>) msgs)
       = 256
   \<and> chat cfg (W\<lparr>vllm := \<lambda>p. if payload_clamped p then vllm W p else Inl TransportError\<rparr>)
        req m
       = chat cfg W req m"
proof -
  have "float_within 0 (1 / 2) (p_temperature (gen_payload cfg req msgs))"
    using clamp_temperature_range [of "temperature req"] by (simp add: gen_payload_def)
  moreover have "p_max_tokens (gen_payload cfg req msgs) \<le> 256"
    by (simp add: gen_payload_def clamp_max_tokens_le)
  moreover have "p_temperature
        (gen_payload cfg (req\<lparr>temperature := Finite (9 / 10), max_tokens := 500\<rparr>) msgs)
       = Finite (1 / 2)"
    by (simp add: gen_payload_def clamp_temperature_def py_min_def py_max_def)
  moreover have "p_max_tokens
        (gen_payload cfg (req\<lparr>temperature := Finite (9 / 10), max_tokens := 500\<rparr>) msgs)
       = 256"
    by (simp add: gen_payload_def clamp_max_tokens_def py_min_int_def)
  ultimately show ?thesis using chat_guarded_backend by blast
qed

text \<open>
  C10: the clamp of \<^verbatim>\<open>max_tokens\<close> has no lower bound: a value of at most 256, zero and
  the negative ones included, reaches the payload unchanged.
\<close>

theorem max_tokens_no_lower_bound:
  "max_tokens req \<le> 256 \<Longrightarrow> p_max_tokens (gen_payload cfg req msgs) = max_tokens req"
  by (simp add: gen_payload_def clamp_max_tokens_def py_min_int_def)

theorem max_tokens_no_lower_bound_witness:
  "max_tokens \<lparr>question = ''q'', k = 4, max_tokens = - 5, temperature = Finite (1 / 10),
      debug = False\<rparr> \<le> 256
   \<and> p_max_tokens (gen_payload default_config
        \<lparr>question = ''q'', k = 4, max_tokens = - 5, temperature = Finite (1 / 10),
          debug = False\<rparr> [])
      = - 5"
  using max_tokens_no_lower_bound
    [of "\<lparr>question = ''q'', k = 4, max_tokens = - 5, temperature = Finite (1 / 10),
           debug = False\<rparr>" default_config "[]"]
  by simp

subsection \<open>The budget trim\<close>




lemma spec_budget_trim_full:
  "int n \<ge> max_ctx_snippets cfg \<Longrightarrow> spec_budget_trim cfg hs n tot = []"
  by (cases hs) auto

lemma trim_loop_refines:
  "trim_loop cfg hs tot trimmed = trimmed @ spec_budget_trim cfg hs (length trimmed) tot"
proof (induction hs arbitrary: tot trimmed)
  case Nil
  then show ?case by simp
next
  case (Cons h hs)
  show ?case
  proof (cases "int (length trimmed) < max_ctx_snippets cfg")
    case False
    then show ?thesis by (simp add: Let_def)
  next
    case lt: True
    show ?thesis
    proof (cases "tot + int (length (hit_txt h)) \<le> max_ctx_chars cfg")
      case True
      show ?thesis
      proof (cases "int (length (trimmed @ [h])) \<ge> max_ctx_snippets cfg")
        case full: True
        then have "spec_budget_trim cfg hs (Suc (length trimmed))
            (tot + int (length (hit_txt h))) = []"
          by (intro spec_budget_trim_full) simp
        with lt True full show ?thesis by (simp add: Let_def)
      next
        case False
        with lt True Cons.IH [of "tot + int (length (hit_txt h))" "trimmed @ [h]"]
        show ?thesis by (simp add: Let_def)
      qed
    next
      case False
      with lt Cons.IH [of tot trimmed] show ?thesis by (simp add: Let_def)
    qed
  qed
qed


text \<open>
  The policy at work, with a limit of 2 snippets and 10 characters: the second hit (8
  characters after 3) overflows and is skipped, the third is admitted, and the fourth,
  which would fit, is never looked at.
\<close>

lemma normalize_hits_order_dependent:
  "normalize_hits \<lparr>model_name = ''m'', max_ctx_snippets = 2, max_ctx_chars = 10\<rparr>
     [\<lparr>h_text = Some ''abc'',
       h_meta = Some \<lparr>m_doc_id = Some ''A'', m_section = None, m_text = None\<rparr>\<rparr>,
      \<lparr>h_text = Some ''abcdefgh'',
       h_meta = Some \<lparr>m_doc_id = Some ''B'', m_section = None, m_text = None\<rparr>\<rparr>,
      \<lparr>h_text = Some ''ab'',
       h_meta = Some \<lparr>m_doc_id = Some ''C'', m_section = None, m_text = None\<rparr>\<rparr>,
      \<lparr>h_text = Some ''a'',
       h_meta = Some \<lparr>m_doc_id = Some ''D'', m_section = None, m_text = None\<rparr>\<rparr>]
   = [\<lparr>h_text = Some ''abc'',
       h_meta = Some \<lparr>m_doc_id = Some ''A'', m_section = None, m_text = None\<rparr>\<rparr>,
      \<lparr>h_text = Some ''ab'',
       h_meta = Some \<lparr>m_doc_id = Some ''C'', m_section = None, m_text = None\<rparr>\<rparr>]"
  by code_simp

subsection \<open>The citation extractor\<close>

lemma first_index_Cons:
  "map (\<lambda>i. (l # ls) ! i)
     (filter (\<lambda>i. (l # ls) ! i \<notin> S \<union> set (take i (l # ls))) [0..<Suc (length ls)])
   = (if l \<in> S then [] else [l])
     @ map (\<lambda>i. ls ! i) (filter (\<lambda>i. ls ! i \<notin> insert l S \<union> set (take i ls)) [0..<length ls])"
proof -
  have upt: "[0..<Suc (length ls)] = 0 # map Suc [0..<length ls]"
    by (simp add: upt_conv_Cons map_Suc_upt del: upt_Suc)
  have "filter (\<lambda>i. (l # ls) ! i \<notin> S \<union> set (take i (l # ls))) (map Suc [0..<length ls])
        = map Suc (filter (\<lambda>i. ls ! i \<notin> insert l S \<union> set (take i ls)) [0..<length ls])"
    unfolding filter_map comp_def by (rule arg_cong [where f = "map Suc"], rule filter_cong) auto
  then show ?thesis unfolding upt by (simp add: comp_def)
qed

lemma collect_loop_index:
  "collect_loop hs seen out
   = out @ map (\<lambda>i. labels_of hs ! i)
       (filter (\<lambda>i. labels_of hs ! i \<notin> seen \<union> set (take i (labels_of hs)))
          [0..<length (labels_of hs)])"
proof (induction hs arbitrary: seen out)
  case Nil
  then show ?case by (simp add: labels_of_def)
next
  case (Cons h hs)
  let ?l = "label (h_meta h)"
  have lab: "labels_of (h # hs) = ?l # labels_of hs" by (simp add: labels_of_def)
  show ?case
  proof (cases "?l \<in> seen")
    case True
    then have "insert ?l seen = seen" by auto
    with True Cons.IH [of seen out] show ?thesis
      unfolding lab length_Cons first_index_Cons by (simp add: Let_def)
  next
    case False
    with Cons.IH [of "insert ?l seen" "out @ [?l]"] show ?thesis
      unfolding lab length_Cons first_index_Cons by (simp add: Let_def)
  qed
qed

lemma collect_loop_distinct:
  "distinct out \<Longrightarrow> set out \<subseteq> seen \<Longrightarrow> distinct (collect_loop hs seen out)"
proof (induction hs arbitrary: seen out)
  case Nil
  then show ?case by simp
next
  case (Cons h hs)
  let ?l = "label (h_meta h)"
  show ?case
  proof (cases "?l \<in> seen")
    case True
    with Cons show ?thesis by (simp add: Let_def)
  next
    case False
    have "distinct (collect_loop hs (insert ?l seen) (out @ [?l]))"
      using False Cons.prems by (intro Cons.IH) auto
    with False show ?thesis by (simp add: Let_def)
  qed
qed

lemma collect_loop_distinct_labels:
  "distinct (labels_of hs) \<Longrightarrow> set (labels_of hs) \<inter> seen = {} \<Longrightarrow>
   collect_loop hs seen out = out @ labels_of hs"
proof (induction hs arbitrary: seen out)
  case Nil
  then show ?case by (simp add: labels_of_def)
next
  case (Cons h hs)
  let ?l = "label (h_meta h)"
  have lab: "labels_of (h # hs) = ?l # labels_of hs" by (simp add: labels_of_def)
  have "collect_loop hs (insert ?l seen) (out @ [?l]) = (out @ [?l]) @ labels_of hs"
    using Cons.prems unfolding lab by (intro Cons.IH) auto
  moreover have "?l \<notin> seen" using Cons.prems(2) unfolding lab by auto
  ultimately show ?case unfolding lab by (simp add: Let_def)
qed

lemma dedup_loop_distinct:
  "distinct (labels_of dedup) \<Longrightarrow> set (labels_of dedup) \<subseteq> seen \<Longrightarrow>
   distinct (labels_of (dedup_loop hs seen dedup))"
proof (induction hs arbitrary: seen dedup)
  case Nil
  then show ?case by simp
next
  case (Cons h hs)
  let ?l = "label (h_meta h)"
  show ?case
  proof (cases "?l \<in> seen")
    case True
    with Cons show ?thesis by (simp add: Let_def)
  next
    case False
    have "distinct (labels_of (dedup_loop hs (insert ?l seen) (dedup @ [h])))"
      using False Cons.prems by (intro Cons.IH) (auto simp: labels_of_def)
    with False show ?thesis by (simp add: Let_def)
  qed
qed

lemma set_spec_budget_trim: "set (spec_budget_trim cfg hs n t) \<subseteq> set hs"
  by (induction hs arbitrary: n t) auto

lemma spec_budget_trim_distinct:
  "distinct (labels_of hs) \<Longrightarrow> distinct (labels_of (spec_budget_trim cfg hs n t))"
proof (induction hs arbitrary: n t)
  case Nil
  then show ?case by simp
next
  case (Cons h hs)
  have "label (h_meta h) \<notin> set (labels_of (spec_budget_trim cfg hs (Suc n) (t + int (length (hit_txt h)))))"
    using Cons.prems set_spec_budget_trim [of cfg hs "Suc n" "t + int (length (hit_txt h))"]
    by (auto simp: labels_of_def)
  then show ?case using Cons by (auto simp: labels_of_def)
qed

lemma normalize_hits_distinct: "distinct (labels_of (normalize_hits cfg hits))"
proof -
  have "distinct (labels_of (dedup_loop (text_first (drop_noise hits)) {} []))"
    by (rule dedup_loop_distinct) (simp_all add: labels_of_def)
  then show ?thesis
    by (simp add: normalize_hits_def Let_def trim_loop_refines spec_budget_trim_distinct)
qed

text \<open>
  C8: the citations of an evidence sequence are pairwise distinct and are the labels of
  the sequence at their first occurrences, in the order of these occurrences. On the
  normalised sequence, which is what both routes pass to the extractor, the labels are
  already distinct and the citations are the labels of the evidence, one for one.
\<close>

theorem collect_citations_first_occurrence:
  "distinct (collect_citations ev)
   \<and> collect_citations ev = first_occurrences (labels_of ev)
   \<and> collect_citations (normalize_hits cfg hits) = labels_of (normalize_hits cfg hits)"
proof -
  have "distinct (collect_citations ev)"
    by (simp add: collect_citations_def collect_loop_distinct)
  moreover have "collect_citations ev = first_occurrences (labels_of ev)"
    by (simp add: collect_citations_def collect_loop_index first_occurrences_def)
  moreover have "collect_citations (normalize_hits cfg hits) = labels_of (normalize_hits cfg hits)"
    using collect_loop_distinct_labels [OF normalize_hits_distinct, of cfg hits "{}" "[]"]
    by (simp add: collect_citations_def)
  ultimately show ?thesis by blast
qed

subsection \<open>Telemetry of \<^verbatim>\<open>/chat\<close>\<close>



text \<open>
  C2 at a backend that answers with the empty JSON object: \<open>chat\<close> raises \<^verbatim>\<open>KeyError\<close>
  from the lookup that follows the guarded block, and the error counter of the
  generation stage stays at 0 (a transport failure of the same stage brings it to 1).
\<close>

theorem chat_bad_shape:
  "chat default_config world_bad_shape request_ok zero_metrics
   = (Inl KeyError, \<lparr>reqs_chat = 1, reqs_dryrun = 0, errs_retriever = 0, errs_vllm = 0,
        rag_lat_count = 1, vllm_lat_count = 1, e2e_lat_count = 0\<rparr>)
   \<and> errs_vllm (snd (chat default_config world_vllm_down request_ok zero_metrics)) = 1"
  by (simp add: chat_def retrieve_def generate_def finish_chat_def extract_content_def
      world_bad_shape_def world_vllm_down_def world_ok_def request_ok_def zero_metrics_def
      Let_def)

subsection \<open>\<^verbatim>\<open>/dryrun\<close> against \<^verbatim>\<open>/chat\<close>\<close>

text \<open>
  C9: with the same retrieval service, question and \<open>k\<close>, whenever \<open>dryrun\<close> and \<open>chat\<close>
  with \<^verbatim>\<open>debug=true\<close> both return, the citations of the two responses are the same and the
  messages of the debug payload are the messages of the dry run.
\<close>

theorem dryrun_chat_agree:
  assumes "debug req"
    and "fst (dryrun cfg W (question req) (k req) m1) = Inr d"
    and "fst (chat cfg W req m2) = Inr resp"
  shows "r_citations resp = dr_citations d
         \<and> map_option dbg_messages (r_debug resp) = Some (dr_messages d)"
  using assms
  by (auto simp: dryrun_def chat_def retrieve_def generate_def finish_chat_def Let_def
      split: sum.splits prod.splits json.splits)

lemma dryrun_ok_value:
  "fst (dryrun default_config world_ok (question request_ok) (k request_ok) zero_metrics)
   = Inr \<lparr>dr_question = ''q'', dr_citations = [''A#intro''],
           dr_used_snippets = [\<lparr>s_label = ''A#intro'', s_text = ''hello''\<rparr>],
           dr_messages = [\<lparr>role = ''user'', content = ''q''\<rparr>,
                          \<lparr>role = ''system'', content = ''hello''\<rparr>],
           dr_note = ''This is a dry run; no LLM call was made.''\<rparr>"
  by code_simp

lemma chat_ok_value:
  "fst (chat default_config world_ok request_ok zero_metrics)
   = Inr \<lparr>r_answer = ''ok'' @ [NL] @ ''Source: A#intro'', r_citations = [''A#intro''],
           r_usage = JObj [],
           r_debug = Some \<lparr>dbg_messages = [\<lparr>role = ''user'', content = ''q''\<rparr>,
                                             \<lparr>role = ''system'', content = ''hello''\<rparr>],
                             dbg_used_snippets = [\<lparr>s_label = ''A#intro'', s_text = ''hello''\<rparr>],
                             dbg_raw_hits = hits_ok,
                             dbg_payload_model = ''smollm2-135m-atharva'',
                             dbg_payload_temperature = Finite (1 / 10),
                             dbg_payload_max_tokens = 200\<rparr>\<rparr>"
  by code_simp

theorem dryrun_chat_agree_witness:
  "debug request_ok
   \<and> isl (fst (dryrun default_config world_ok (question request_ok) (k request_ok) zero_metrics)) = False
   \<and> isl (fst (chat default_config world_ok request_ok zero_metrics)) = False
   \<and> r_citations (projr (fst (chat default_config world_ok request_ok zero_metrics)))
       = dr_citations (projr (fst (dryrun default_config world_ok (question request_ok)
           (k request_ok) zero_metrics)))
   \<and> map_option dbg_messages
        (r_debug (projr (fst (chat default_config world_ok request_ok zero_metrics))))
       = Some (dr_messages (projr (fst (dryrun default_config world_ok (question request_ok)
           (k request_ok) zero_metrics))))"
proof -
  have dbg: "debug request_ok" by (simp add: request_ok_def)
  from dryrun_chat_agree [OF dbg dryrun_ok_value chat_ok_value] show ?thesis
    by (simp add: dbg dryrun_ok_value chat_ok_value)
qed


subsection \<open>Answer post-processing is idempotent\<close>

lemma break_free_simps [simp]:
  "break_free []" "break_free (c # s) = (\<not> is_linebreak c \<and> break_free s)"
  "break_free (a @ b) = (break_free a \<and> break_free b)"
  by (auto simp: break_free_def)


lemma NL_facts [simp]: "is_space NL" "is_linebreak NL" "NL \<noteq> CR"
  by (simp_all add: is_space_def is_linebreak_def NL_def CR_def)

lemma rstrip_Nil [simp]: "rstrip [] = []"
  by (simp add: rstrip_def)






lemma lstrip_Nil [simp]: "lstrip [] = []"
  by (simp add: lstrip_def)









lemma splitlines_Nil [simp]: "splitlines [] = []"
  by (simp add: splitlines.simps)

















end
